theory Spec2Isabelle
  imports Main "HOL-Library.Sublist" "HOL-Library.Multiset"
begin

section \<open>JavaScript values the handlers depend on\<close>

text \<open>
  Errors are values. A thrown JavaScript error carries the constructor that built it
  (which decides \<open>instanceof\<close>), its \<open>name\<close> and its \<open>message\<close>. The handlers of
  \<^verbatim>\<open>backend/src/routes\<close> and \<^verbatim>\<open>backend/src/middleware/auth.ts\<close> inspect exactly these.
\<close>

datatype err_class = Error | JsonWebTokenError | TokenExpiredError

datatype js_error = Thrown (cls: err_class) (err_name: string) (err_message: string)

text \<open>
  The prototype chains of the error constructors. In the \<^verbatim>\<open>jsonwebtoken\<close> package
  \<^verbatim>\<open>TokenExpiredError.prototype = Object.create(JsonWebTokenError.prototype)\<close>, and
  \<^verbatim>\<open>JsonWebTokenError\<close> derives from \<^verbatim>\<open>Error\<close>: an expired token's error is an instance
  of all three.
\<close>

fun proto_chain :: "err_class \<Rightarrow> err_class list" where
  "proto_chain Error = [Error]"
| "proto_chain JsonWebTokenError = [JsonWebTokenError, Error]"
| "proto_chain TokenExpiredError = [TokenExpiredError, JsonWebTokenError, Error]"

definition instanceof :: "js_error \<Rightarrow> err_class \<Rightarrow> bool" where
  "instanceof e c = (c \<in> set (proto_chain (cls e)))"

subsection \<open>Strings\<close>

text \<open>
  Identifiers, names, header values and messages are lists of 8-bit characters; the
  handlers look into them in the ASCII range only. \<^verbatim>\<open>toUpperCase\<close> and \<^verbatim>\<open>toLowerCase\<close>
  map the letters a..z and A..Z, \<^verbatim>\<open>split(' ')\<close> cuts at every single space (so it never
  returns an empty array), \<^verbatim>\<open>startsWith\<close> is a prefix test.
\<close>

definition lower_letters :: string where
  "lower_letters = ''abcdefghijklmnopqrstuvwxyz''"

definition upper_letters :: string where
  "upper_letters = ''ABCDEFGHIJKLMNOPQRSTUVWXYZ''"

definition digits :: string where
  "digits = ''0123456789''"

definition toUpperChar :: "char \<Rightarrow> char" where
  "toUpperChar c = (case map_of (zip lower_letters upper_letters) c of Some d \<Rightarrow> d | None \<Rightarrow> c)"

definition toLowerChar :: "char \<Rightarrow> char" where
  "toLowerChar c = (case map_of (zip upper_letters lower_letters) c of Some d \<Rightarrow> d | None \<Rightarrow> c)"

definition toUpperCase :: "string \<Rightarrow> string" where
  "toUpperCase s = map toUpperChar s"

definition toLowerCase :: "string \<Rightarrow> string" where
  "toLowerCase s = map toLowerChar s"

fun split_on :: "char \<Rightarrow> string \<Rightarrow> string list" where
  "split_on sep [] = [[]]"
| "split_on sep (c # cs) =
     (if c = sep then [] # split_on sep cs
      else (case split_on sep cs of
              [] \<Rightarrow> [[c]]
            | w # ws \<Rightarrow> (c # w) # ws))"

definition startsWith :: "string \<Rightarrow> string \<Rightarrow> bool" where
  "startsWith s p = (take (length p) s = p)"

text \<open>
  A value that is a string or \<^verbatim>\<open>undefined\<close> (\<open>None\<close>) is falsy when it is
  \<^verbatim>\<open>undefined\<close> or the empty string.
\<close>

definition falsy :: "'a list option \<Rightarrow> bool" where
  "falsy v = (v = None \<or> v = Some [])"

text \<open>\<^verbatim>\<open>arr[i]\<close> is \<^verbatim>\<open>undefined\<close> past the end of the array.\<close>

definition index :: "'a list \<Rightarrow> nat \<Rightarrow> 'a option" where
  "index xs i = (if i < length xs then Some (xs ! i) else None)"

subsection \<open>Free text\<close>

text \<open>
  The content of a post and the free-text parameter of the feed are read character by
  character, by \<^verbatim>\<open>String.prototype.trim\<close> and by the store's pattern matching. They are
  kept as JavaScript has them, a sequence of UTF-16 code units, each a number; \<open>ascii\<close>
  is such a text given by its ASCII characters.

  \<^verbatim>\<open>trim\<close> strips white space and line terminators from both ends. White space is
  tab, vertical tab, form feed, the byte order mark U+FEFF and the space separators of
  Unicode (space, U+00A0, U+1680, U+2000 to U+200A, U+202F, U+205F, U+3000); the line
  terminators are line feed, carriage return, U+2028 and U+2029.
\<close>

type_synonym utf16 = "nat list"

definition ascii :: "string \<Rightarrow> utf16" where
  "ascii s = map of_char s"

definition white_space :: "nat list" where
  "white_space =
     [0x0009, 0x000B, 0x000C, 0xFEFF, 0x0020, 0x00A0, 0x1680,
      0x2000, 0x2001, 0x2002, 0x2003, 0x2004, 0x2005, 0x2006, 0x2007, 0x2008, 0x2009, 0x200A,
      0x202F, 0x205F, 0x3000]"

definition line_terminators :: "nat list" where
  "line_terminators = [0x000A, 0x000D, 0x2028, 0x2029]"

definition is_ws :: "nat \<Rightarrow> bool" where
  "is_ws c = (c \<in> set white_space \<or> c \<in> set line_terminators)"

definition trim :: "utf16 \<Rightarrow> utf16" where
  "trim s = rev (dropWhile is_ws (rev (dropWhile is_ws s)))"

section \<open>The document store\<close>

text \<open>
  \<^verbatim>\<open>backend/src/models/Post.ts\<close> and \<^verbatim>\<open>backend/src/models/User.ts\<close>: the two
  collections. \<open>p_id\<close> and \<open>u_id\<close> are the documents' \<^verbatim>\<open>_id\<close> rendered by
  \<^verbatim>\<open>toString()\<close>; \<open>p_createdAt\<close> is the \<^verbatim>\<open>createdAt\<close> timestamp in milliseconds.
  A collection is the list of its documents in the order they were inserted.
\<close>

record post =
  p_id :: string
  p_type :: string
  p_content :: utf16
  p_userId :: string
  p_imageUrl :: "string option"
  p_createdAt :: int

record user =
  u_id :: string
  u_name :: string
  u_email :: string
  u_password :: string

record store =
  posts :: "post list"
  users :: "user list"

text \<open>
  \<^verbatim>\<open>/^[0-9a-fA-F]{24}$/\<close>, the test the feed handler applies to user ids ("Check if
  userId is a valid ObjectId") before it looks them up.
\<close>

definition is_hex :: "char \<Rightarrow> bool" where
  "is_hex c = (c \<in> set digits \<or> c \<in> set ''abcdef'' \<or> c \<in> set ''ABCDEF'')"

definition is_object_id :: "string \<Rightarrow> bool" where
  "is_object_id s = (length s = 24 \<and> list_all is_hex s)"

text \<open>
  Both collections are keyed by an \<^verbatim>\<open>ObjectId\<close>, twelve bytes that \<^verbatim>\<open>toString()\<close>
  renders as 24 hexadecimal digits in lower case. The store layer casts the value of an
  \<^verbatim>\<open>_id\<close> condition to an \<^verbatim>\<open>ObjectId\<close> before it sends the query, and the call throws a
  \<^verbatim>\<open>CastError\<close> when the value is not one. A string of 24 hexadecimal digits is the id
  with these digits. A string of 12 characters is read as the twelve bytes of an id by
  the versions of the store layer that take such strings; in the versions that do not,
  the call throws, which is left to the driver below. A string of any other shape is
  cast by no version.
\<close>

definition casts :: "string \<Rightarrow> bool" where
  "casts i = (is_object_id i \<or> length i = 12)"

definition hex_digit :: "nat \<Rightarrow> char" where
  "hex_digit n = ''0123456789abcdef'' ! n"

definition hex_byte :: "char \<Rightarrow> string" where
  "hex_byte c = [hex_digit (of_char c div 16), hex_digit (of_char c mod 16)]"

text \<open>The id a string is cast to, as \<^verbatim>\<open>toString()\<close> renders it.\<close>

definition object_id :: "string \<Rightarrow> string" where
  "object_id i = (if length i = 12 then concat (map hex_byte i) else toLowerCase i)"

definition cast_error :: js_error where
  "cast_error = Thrown Error ''CastError'' ''Cast to ObjectId failed''"

text \<open>
  Every store call is awaited inside a \<^verbatim>\<open>try\<close> block, and may throw for reasons of the
  store's own (a lost connection, a rejected write, a request the server refuses, a
  value this version does not cast). Which calls do is a parameter of the model: a
  \<open>driver\<close> says, for each call, whether it throws and what. \<open>Connect\<close> is
  \<^verbatim>\<open>connectDB()\<close> of the serverless functions.
\<close>

datatype store_call =
    Connect
  | PostFind
  | PostFindById string
  | PostFindByIdAndDelete string
  | PostSave
  | UserFind "string list"
  | UserFindById string
  | UserFindOne string

type_synonym driver = "store_call \<Rightarrow> js_error option"

definition Post_findById :: "driver \<Rightarrow> store \<Rightarrow> string \<Rightarrow> js_error + post option" where
  "Post_findById drv s i =
     (if \<not> casts i then Inl cast_error
      else (case drv (PostFindById i) of
              Some e \<Rightarrow> Inl e
            | None \<Rightarrow> Inr (find (\<lambda>p. p_id p = object_id i) (posts s))))"

fun delete_first :: "('a \<Rightarrow> bool) \<Rightarrow> 'a list \<Rightarrow> 'a list" where
  "delete_first P [] = []"
| "delete_first P (x # xs) = (if P x then xs else x # delete_first P xs)"

definition Post_findByIdAndDelete :: "driver \<Rightarrow> store \<Rightarrow> string \<Rightarrow> js_error + store" where
  "Post_findByIdAndDelete drv s i =
     (if \<not> casts i then Inl cast_error
      else (case drv (PostFindByIdAndDelete i) of
              Some e \<Rightarrow> Inl e
            | None \<Rightarrow> Inr (s\<lparr>posts := delete_first (\<lambda>p. p_id p = object_id i) (posts s)\<rparr>)))"

definition User_findById :: "driver \<Rightarrow> store \<Rightarrow> string \<Rightarrow> js_error + user option" where
  "User_findById drv s i =
     (if \<not> casts i then Inl cast_error
      else (case drv (UserFindById i) of
              Some e \<Rightarrow> Inl e
            | None \<Rightarrow> Inr (find (\<lambda>u. u_id u = object_id i) (users s))))"

text \<open>\<^verbatim>\<open>User.find({ _id: { $in: ids } })\<close>: the users whose id is one of \<open>ids\<close>.\<close>

definition User_find_in :: "driver \<Rightarrow> store \<Rightarrow> string list \<Rightarrow> js_error + user list" where
  "User_find_in drv s ids =
     (if \<not> list_all casts ids then Inl cast_error
      else (case drv (UserFind ids) of
              Some e \<Rightarrow> Inl e
            | None \<Rightarrow> Inr (filter (\<lambda>u. u_id u \<in> object_id ` set ids) (users s))))"

text \<open>\<^verbatim>\<open>User.findOne({ email })\<close>: the first user with that email.\<close>

definition User_findOne :: "driver \<Rightarrow> store \<Rightarrow> string \<Rightarrow> js_error + user option" where
  "User_findOne drv s e =
     (case drv (UserFindOne e) of
        Some err \<Rightarrow> Inl err
      | None \<Rightarrow> Inr (find (\<lambda>u. u_email u = e) (users s)))"

section \<open>Regular expressions of the store's query language\<close>

text \<open>
  \<^verbatim>\<open>{ $regex: pattern, $options: 'i' }\<close> is matched by the store's PCRE engine. The
  engine reads a pattern as a sequence of atoms: a backslash followed by a character
  that is not an ASCII letter or digit stands for that character itself; a backslash
  followed by an ASCII letter or digit is an operator (a class, an anchor, a back
  reference); a pattern that ends in a lone backslash does not compile; an unescaped
  metacharacter is an operator; every other character stands for itself.
\<close>

definition bslash :: nat where
  "bslash = 0x5C"

definition is_alnum :: "nat \<Rightarrow> bool" where
  "is_alnum c = (c \<in> set (ascii lower_letters) \<or> c \<in> set (ascii upper_letters)
                 \<or> c \<in> set (ascii digits))"

definition pcre_meta :: "nat \<Rightarrow> bool" where
  "pcre_meta c = (c = bslash \<or> c \<in> set (ascii ''^$.[|()?*+{''))"

datatype rx_atom = Lit nat | Op utf16

fun rx_atoms :: "utf16 \<Rightarrow> rx_atom list option" where
  "rx_atoms [] = Some []"
| "rx_atoms (c # cs) =
     (if c = bslash then
        (case cs of
           [] \<Rightarrow> None
         | d # ds \<Rightarrow>
             (if is_alnum d then map_option (Cons (Op [c, d])) (rx_atoms ds)
              else map_option (Cons (Lit d)) (rx_atoms ds)))
      else if pcre_meta c then map_option (Cons (Op [c])) (rx_atoms cs)
      else map_option (Cons (Lit c)) (rx_atoms cs))"

fun literal :: "rx_atom list \<Rightarrow> utf16 option" where
  "literal [] = Some []"
| "literal (Lit c # as) = map_option (Cons c) (literal as)"
| "literal (Op _ # as) = None"

text \<open>
  A pattern of literal atoms only, under option \<^verbatim>\<open>i\<close>, matches a text when the text
  holds the atoms' characters in a row somewhere, the letters a..z and A..Z compared
  without case.
\<close>

definition fold_case :: "nat \<Rightarrow> nat" where
  "fold_case c =
     (case map_of (zip (ascii upper_letters) (ascii lower_letters)) c of
        Some d \<Rightarrow> d
      | None \<Rightarrow> c)"

fun ci_prefix :: "utf16 \<Rightarrow> utf16 \<Rightarrow> bool" where
  "ci_prefix [] hay = True"
| "ci_prefix (c # cs) [] = False"
| "ci_prefix (c # cs) (d # ds) = (fold_case c = fold_case d \<and> ci_prefix cs ds)"

fun ci_search :: "utf16 \<Rightarrow> utf16 \<Rightarrow> bool" where
  "ci_search needle [] = ci_prefix needle []"
| "ci_search needle (d # ds) = (ci_prefix needle (d # ds) \<or> ci_search needle ds)"

text \<open>
  What the engine does with a pattern that has operators (whether it compiles, what it
  matches) is a parameter: \<open>rx_engine\<close>.
\<close>

type_synonym rx_engine = "rx_atom list \<Rightarrow> js_error + (utf16 \<Rightarrow> bool)"

definition regex_error :: js_error where
  "regex_error = Thrown Error ''MongoServerError'' ''Regular expression is invalid''"

definition regex_compile :: "rx_engine \<Rightarrow> utf16 \<Rightarrow> js_error + (utf16 \<Rightarrow> bool)" where
  "regex_compile eng pat =
     (case rx_atoms pat of
        None \<Rightarrow> Inl regex_error
      | Some as \<Rightarrow>
          (case literal as of
             Some lit \<Rightarrow> Inr (ci_search lit)
           | None \<Rightarrow> eng as))"

subsection \<open>Queries on posts\<close>

text \<open>
  The filter object the feed handler builds: each field is optional,
  \<open>q_content\<close> is the \<^verbatim>\<open>$regex\<close> pattern (always with \<^verbatim>\<open>$options: 'i'\<close>).
\<close>

record mongo_query =
  q_userId :: "string option"
  q_type :: "string option"
  q_content :: "utf16 option"

definition field_eq :: "string option \<Rightarrow> string \<Rightarrow> bool" where
  "field_eq want have = (case want of None \<Rightarrow> True | Some w \<Rightarrow> have = w)"

definition compile_query :: "rx_engine \<Rightarrow> mongo_query \<Rightarrow> js_error + (post \<Rightarrow> bool)" where
  "compile_query eng qry =
     (case q_content qry of
        None \<Rightarrow> Inr (\<lambda>p. field_eq (q_userId qry) (p_userId p) \<and> field_eq (q_type qry) (p_type p))
      | Some pat \<Rightarrow>
          (case regex_compile eng pat of
             Inl e \<Rightarrow> Inl e
           | Inr m \<Rightarrow>
               Inr (\<lambda>p. field_eq (q_userId qry) (p_userId p) \<and> field_eq (q_type qry) (p_type p)
                         \<and> m (p_content p))))"

text \<open>\<^verbatim>\<open>Post.find(query).sort({ createdAt: -1 })\<close>.\<close>

definition Post_find_sort :: "driver \<Rightarrow> rx_engine \<Rightarrow> store \<Rightarrow> mongo_query \<Rightarrow> js_error + post list" where
  "Post_find_sort drv eng s qry =
     (case drv PostFind of
        Some e \<Rightarrow> Inl e
      | None \<Rightarrow>
          (case compile_query eng qry of
             Inl e \<Rightarrow> Inl e
           | Inr m \<Rightarrow> Inr (sort_key (\<lambda>p. - p_createdAt p) (filter m (posts s)))))"

section \<open>Responses\<close>

text \<open>
  A post as the handlers send it (\<^verbatim>\<open>formattedPosts\<close>, \<^verbatim>\<open>data\<close>). \<open>f_createdAt\<close> is the
  instant that \<^verbatim>\<open>createdAt.toISOString()\<close> renders.
\<close>

record formatted_post =
  f_id :: string
  f_type :: string
  f_content :: utf16
  f_userId :: string
  f_userName :: string
  f_createdAt :: int
  f_imageUrl :: "string option"

text \<open>
  \<^verbatim>\<open>res.status(n).json(body)\<close>, by the shape of the body:
  \<open>Json n ok msg\<close> is \<^verbatim>\<open>{ success, message }\<close>;
  \<open>JsonErrors\<close> adds \<^verbatim>\<open>errors\<close>, \<open>JsonError\<close> adds \<^verbatim>\<open>error\<close>;
  \<open>JsonAuth n ok msg uid nm em tok\<close> is the \<^verbatim>\<open>AuthResponse\<close>
  \<^verbatim>\<open>{ success, message, user: { id, name, email }, token }\<close>;
  \<open>JsonFeed\<close> is the array of posts; \<open>JsonPost\<close> is \<^verbatim>\<open>{ success, message, data }\<close>;
  \<open>JsonMessage n msg\<close> is \<^verbatim>\<open>{ message }\<close>, the body the serverless functions send;
  \<open>Ended n\<close> is \<^verbatim>\<open>res.status(n).end()\<close>.
\<close>

datatype response =
    Json nat bool string
  | JsonMessage nat string
  | Ended nat
  | JsonErrors nat bool string "string list"
  | JsonError nat bool string string
  | JsonAuth nat bool string string string string string
  | JsonFeed nat "formatted_post list"
  | JsonPost nat bool string formatted_post

text \<open>The catch branch shared by the feed and the delete handler.\<close>

definition store_catch :: "js_error \<Rightarrow> response" where
  "store_catch e =
     (if instanceof e Error \<and> err_name e = ''MongoError''
      then Json 500 False ''Database connection error''
      else Json 500 False ''Internal server error'')"

section \<open>DELETE /api/posts/:id\<close>

text \<open>
  \<^verbatim>\<open>backend/src/routes/posts.ts\<close>, the handler behind \<^verbatim>\<open>authenticateToken\<close>:
  \<open>i\<close> is \<^verbatim>\<open>req.params.id\<close>, \<open>uid\<close> is \<^verbatim>\<open>req.user.id\<close>. It returns the response and
  the store it leaves.
\<close>

definition delete_handler :: "driver \<Rightarrow> store \<Rightarrow> string \<Rightarrow> string \<Rightarrow> response \<times> store" where
  "delete_handler drv s i uid =
     (case Post_findById drv s i of
        Inl e \<Rightarrow> (store_catch e, s)
      | Inr None \<Rightarrow> (Json 404 False ''Post not found'', s)
      | Inr (Some post) \<Rightarrow>
          (if p_userId post \<noteq> uid
           then (Json 403 False ''You can only delete your own posts'', s)
           else (case Post_findByIdAndDelete drv s i of
                   Inl e \<Rightarrow> (store_catch e, s)
                 | Inr s' \<Rightarrow> (Json 200 True ''Post deleted successfully'', s'))))"

text \<open>
  The serverless function that deletes a post (the last unit of \<^verbatim>\<open>api/_utils/db.ts\<close>
  in the sources, which imports \<^verbatim>\<open>../../_utils/db\<close>): \<open>method\<close> is \<^verbatim>\<open>req.method\<close>,
  \<open>postId\<close> is \<^verbatim>\<open>req.query.id\<close>, absent or a string, \<open>authHeader\<close> is
  \<^verbatim>\<open>req.headers.authorization\<close>. The function reads nothing else of the request. Its
  test of the owner is commented out:

  \<^verbatim>\<open>// Verify ownership (implement your auth logic here)\<close>

  \<^verbatim>\<open>// if (post.userId !== req.user.id) {\<close>
\<close>

definition api_delete_handler ::
    "driver \<Rightarrow> store \<Rightarrow> string \<Rightarrow> string option \<Rightarrow> string option \<Rightarrow> response \<times> store" where
  "api_delete_handler drv s method postId authHeader =
     (if method = ''OPTIONS'' then (Ended 200, s)
      else if method \<noteq> ''DELETE'' then (JsonMessage 405 ''Method not allowed'', s)
      else (case drv Connect of
              Some e \<Rightarrow> (JsonMessage 500 ''Internal server error'', s)
            | None \<Rightarrow>
                (if falsy postId then (JsonMessage 400 ''Post ID is required'', s)
                 else if \<not> (case authHeader of None \<Rightarrow> False | Some h \<Rightarrow> startsWith h ''Bearer '')
                 then (JsonMessage 401 ''Unauthorized'', s)
                 else (case Post_findById drv s (the postId) of
                         Inl e \<Rightarrow> (JsonMessage 500 ''Internal server error'', s)
                       | Inr None \<Rightarrow> (JsonMessage 404 ''Post not found'', s)
                       | Inr (Some post) \<Rightarrow>
                           (case Post_findByIdAndDelete drv s (the postId) of
                              Inl e \<Rightarrow> (JsonMessage 500 ''Internal server error'', s)
                            | Inr s' \<Rightarrow> (JsonMessage 200 ''Post deleted successfully'', s'))))))"

section \<open>Tokens\<close>

text \<open>
  Modelled from the spec: the declaration of the type \<^verbatim>\<open>JWTPayload\<close>
  (\<^verbatim>\<open>backend/src/types/post.ts\<close>) is not among the sources. The spec gives a token's
  claim set as subject user id, email, optional username and expiry; these are the
  fields \<^verbatim>\<open>jwt.sign\<close> is given in the sources (the standalone server signs
  \<^verbatim>\<open>{ userId, email }\<close>, the serverless functions add \<^verbatim>\<open>username\<close>), with the \<^verbatim>\<open>iat\<close>
  and \<^verbatim>\<open>exp\<close> (seconds) the library adds for \<^verbatim>\<open>expiresIn\<close>.
\<close>

record jwt_payload =
  jwt_userId :: string
  jwt_email :: string
  jwt_username :: "string option"
  iat :: int
  exp :: int

text \<open>
  A signed token, symbolically: the payload it carries, and its signature, which records
  the key it was computed with and the payload it was computed over. The signature
  verifies under a secret when that key is the secret and that payload is the one
  carried. The compact serialisation (three base64url segments joined by dots) is the
  library's: \<open>serialize\<close> and \<open>parse\<close> of a \<open>codec\<close>.
\<close>

datatype jws = Jws (carried: jwt_payload) (sig_key: string) (sig_over: jwt_payload)

record codec =
  serialize :: "jws \<Rightarrow> string"
  parse :: "string \<Rightarrow> jws option"

definition seven_days :: int where
  "seven_days = 7 * 24 * 60 * 60"

text \<open>
  \<^verbatim>\<open>jwt.sign(claims, secret, { expiresIn: '7d' })\<close> at clock \<open>now\<close> (milliseconds):
  the token it signs, and the string it returns.
\<close>

definition signed_token :: "int \<Rightarrow> string \<Rightarrow> string \<Rightarrow> string option \<Rightarrow> string \<Rightarrow> jws" where
  "signed_token now uid em un secret =
     (let p = \<lparr>jwt_userId = uid, jwt_email = em, jwt_username = un,
                iat = now div 1000, exp = now div 1000 + seven_days\<rparr>
      in Jws p secret p)"

definition jwt_sign :: "codec \<Rightarrow> int \<Rightarrow> string \<Rightarrow> string \<Rightarrow> string option \<Rightarrow> string \<Rightarrow> string" where
  "jwt_sign cd now uid em un secret = serialize cd (signed_token now uid em un secret)"

definition signature_verifies :: "jws \<Rightarrow> string \<Rightarrow> bool" where
  "signature_verifies tok secret = (sig_key tok = secret \<and> sig_over tok = carried tok)"

text \<open>
  \<^verbatim>\<open>jwt.verify(token, secret)\<close> at clock \<open>now\<close>: the library checks, in this order, that a
  token is given, that it parses, that its signature verifies, and that
  \<^verbatim>\<open>exp\<close> is still ahead. \<open>None\<close> is \<^verbatim>\<open>undefined\<close>.
\<close>

definition jwt_verify :: "codec \<Rightarrow> int \<Rightarrow> string option \<Rightarrow> string \<Rightarrow> js_error + jwt_payload" where
  "jwt_verify cd now token secret =
     (case token of
        None \<Rightarrow> Inl (Thrown JsonWebTokenError ''JsonWebTokenError'' ''jwt must be provided'')
      | Some t \<Rightarrow>
          (if t = [] then Inl (Thrown JsonWebTokenError ''JsonWebTokenError'' ''jwt must be provided'')
           else (case parse cd t of
                   None \<Rightarrow> Inl (Thrown JsonWebTokenError ''JsonWebTokenError'' ''jwt malformed'')
                 | Some tok \<Rightarrow>
                     (if \<not> signature_verifies tok secret
                      then Inl (Thrown JsonWebTokenError ''JsonWebTokenError'' ''invalid signature'')
                      else if exp (carried tok) \<le> now div 1000
                      then Inl (Thrown TokenExpiredError ''TokenExpiredError'' ''jwt expired'')
                      else Inr (carried tok)))))"

text \<open>
  \<^verbatim>\<open>generateToken\<close> of \<^verbatim>\<open>backend/src/routes/auth.ts\<close>. \<open>env\<close> is
  \<^verbatim>\<open>process.env.JWT_SECRET\<close>.
\<close>

definition generateToken :: "codec \<Rightarrow> int \<Rightarrow> string option \<Rightarrow> string \<Rightarrow> string \<Rightarrow> js_error + string" where
  "generateToken cd now env userId email =
     (if falsy env
      then Inl (Thrown Error ''Error'' ''JWT_SECRET environment variable is not set'')
      else Inr (jwt_sign cd now userId email None (the env)))"

section \<open>Identity middleware\<close>

subsection \<open>The standalone server: \<^verbatim>\<open>backend/src/middleware/auth.ts\<close>\<close>

text \<open>\<^verbatim>\<open>req.user\<close>, and what the middleware does: answer, or call \<^verbatim>\<open>next()\<close> with it set.\<close>

record req_user =
  ru_id :: string
  ru_email :: string

datatype mw_result = Respond response | Next req_user

text \<open>\<^verbatim>\<open>authHeader && authHeader.split(' ')[1]\<close>.\<close>

definition header_token :: "string option \<Rightarrow> string option" where
  "header_token authHeader =
     (if falsy authHeader then authHeader
      else index (split_on (CHR '' '') (the authHeader)) 1)"

definition auth_catch :: "js_error \<Rightarrow> response" where
  "auth_catch e =
     (if instanceof e JsonWebTokenError then Json 401 False ''Invalid token''
      else if instanceof e TokenExpiredError then Json 401 False ''Token expired''
      else Json 500 False ''Authentication failed'')"

definition authenticateToken ::
    "codec \<Rightarrow> driver \<Rightarrow> int \<Rightarrow> string option \<Rightarrow> store \<Rightarrow> string option \<Rightarrow> mw_result" where
  "authenticateToken cd drv now env s authHeader =
     (let token = header_token authHeader in
      if falsy token then Respond (Json 401 False ''Access token required'')
      else if falsy env then Respond (Json 500 False ''Server configuration error'')
      else (case jwt_verify cd now token (the env) of
              Inl e \<Rightarrow> Respond (auth_catch e)
            | Inr decoded \<Rightarrow>
                (case User_findById drv s (jwt_userId decoded) of
                   Inl e \<Rightarrow> Respond (auth_catch e)
                 | Inr None \<Rightarrow> Respond (Json 401 False ''User not found'')
                 | Inr (Some user) \<Rightarrow> Next \<lparr>ru_id = u_id user, ru_email = u_email user\<rparr>)))"

subsection \<open>The serverless functions\<close>

text \<open>
  \<^verbatim>\<open>req.user\<close> of an \<^verbatim>\<open>AuthenticatedRequest\<close>. The functions below return a boolean and
  set \<^verbatim>\<open>req.user\<close> exactly when they return \<^verbatim>\<open>true\<close>: \<open>Some\<close> is \<^verbatim>\<open>true\<close> with the
  identity attached, \<open>None\<close> is \<^verbatim>\<open>false\<close>. The secret is
  \<^verbatim>\<open>process.env.JWT_SECRET || 'your-default-secret'\<close>. Payloads are JSON objects, as
  \<^verbatim>\<open>jwt.sign\<close> is only given objects, so the \<^verbatim>\<open>typeof decoded === 'object'\<close> test holds.
\<close>

record api_user =
  au_id :: string
  au_email :: string
  au_username :: "string option"

definition api_secret :: "string option \<Rightarrow> string" where
  "api_secret env = (if falsy env then ''your-default-secret'' else the env)"

definition decoded_user :: "jwt_payload \<Rightarrow> api_user" where
  "decoded_user d = \<lparr>au_id = jwt_userId d, au_email = jwt_email d, au_username = jwt_username d\<rparr>"

text \<open>\<^verbatim>\<open>verifyToken(req)\<close> of \<^verbatim>\<open>api/_utils/auth.ts\<close>.\<close>

definition api_verifyToken :: "codec \<Rightarrow> int \<Rightarrow> string option \<Rightarrow> string option \<Rightarrow> api_user option" where
  "api_verifyToken cd now env authHeader =
     (case authHeader of
        None \<Rightarrow> None
      | Some h \<Rightarrow>
          (if \<not> startsWith h ''Bearer '' then None
           else (case jwt_verify cd now (index (split_on (CHR '' '') h) 1) (api_secret env) of
                   Inl e \<Rightarrow> None
                 | Inr decoded \<Rightarrow> Some (decoded_user decoded))))"

text \<open>
  \<^verbatim>\<open>verifyToken(token)\<close> and \<^verbatim>\<open>authenticateRequest(req)\<close> of the second serverless
  authentication module.
\<close>

definition verifyToken :: "codec \<Rightarrow> int \<Rightarrow> string option \<Rightarrow> string option \<Rightarrow> api_user option" where
  "verifyToken cd now env token =
     (case jwt_verify cd now token (api_secret env) of
        Inl e \<Rightarrow> None
      | Inr decoded \<Rightarrow> Some (decoded_user decoded))"

definition authenticateRequest :: "codec \<Rightarrow> int \<Rightarrow> string option \<Rightarrow> string option \<Rightarrow> api_user option" where
  "authenticateRequest cd now env authHeader =
     (case authHeader of
        None \<Rightarrow> None
      | Some h \<Rightarrow>
          (if \<not> startsWith h ''Bearer '' then None
           else (case verifyToken cd now env (index (split_on (CHR '' '') h) 1) of
                   None \<Rightarrow> None
                 | Some decoded \<Rightarrow> Some decoded)))"

section \<open>POST /api/login\<close>

text \<open>
  \<^verbatim>\<open>backend/src/routes/auth.ts\<close>. \<open>lr_errors\<close> is what \<^verbatim>\<open>validationResult(req)\<close> holds
  after \<^verbatim>\<open>validateLogin\<close>, \<open>lr_email\<close> and \<open>lr_password\<close> are the body's fields as the
  validators leave them; \<open>bcrypt\<close> is \<^verbatim>\<open>bcrypt.compare(candidate, hash)\<close>, which
  \<^verbatim>\<open>comparePassword\<close> of \<^verbatim>\<open>models/User.ts\<close> calls with the stored hash.
\<close>

record login_request =
  lr_errors :: "string list"
  lr_email :: string
  lr_password :: string

definition comparePassword :: "(string \<Rightarrow> string \<Rightarrow> bool) \<Rightarrow> user \<Rightarrow> string \<Rightarrow> bool" where
  "comparePassword bcrypt u candidate = bcrypt candidate (u_password u)"

definition login_handler ::
    "codec \<Rightarrow> driver \<Rightarrow> (string \<Rightarrow> string \<Rightarrow> bool) \<Rightarrow> int \<Rightarrow> string option \<Rightarrow> store
      \<Rightarrow> login_request \<Rightarrow> response" where
  "login_handler cd drv bcrypt now env s req =
     (if lr_errors req \<noteq> [] then JsonErrors 400 False ''Validation failed'' (lr_errors req)
      else (case User_findOne drv s (toLowerCase (lr_email req)) of
              Inl e \<Rightarrow> Json 500 False ''Login failed''
            | Inr None \<Rightarrow> Json 401 False ''Invalid email or password''
            | Inr (Some user) \<Rightarrow>
                (if \<not> comparePassword bcrypt user (lr_password req)
                 then Json 401 False ''Invalid email or password''
                 else (case generateToken cd now env (u_id user) (u_email user) of
                         Inl e \<Rightarrow> Json 500 False ''Login failed''
                       | Inr token \<Rightarrow>
                           JsonAuth 200 True ''Login successful''
                             (u_id user) (u_name user) (u_email user) token))))"

section \<open>GET /api/posts\<close>

text \<open>
  \<^verbatim>\<open>backend/src/routes/posts.ts\<close>. The parameters of \<^verbatim>\<open>req.query\<close>: each is absent
  (\<open>None\<close>) or a string. (A parameter given once and without brackets is a string, and
  the handler's \<^verbatim>\<open>typeof ... === 'string'\<close> tests hold.)
\<close>

record feed_params =
  fp_userId :: "string option"
  fp_q :: "utf16 option"
  fp_type :: "string option"

text \<open>\<^verbatim>\<open>v && typeof v === 'string'\<close>: the string, when \<open>v\<close> is a non-empty one.\<close>

definition truthy_string :: "'a list option \<Rightarrow> 'a list option" where
  "truthy_string v = (if falsy v then None else v)"

text \<open>
  \<^verbatim>\<open>replace(/[.*+?^${}()|[\]\\]/g, '\\$&')\<close>: every character of the class gets a
  backslash in front.
\<close>

definition escape_class :: "nat \<Rightarrow> bool" where
  "escape_class c = (c \<in> set (ascii ''.*+?^${}()|[]'') \<or> c = bslash)"

fun escapeRegex :: "utf16 \<Rightarrow> utf16" where
  "escapeRegex [] = []"
| "escapeRegex (c # cs) =
     (if escape_class c then bslash # c # escapeRegex cs else c # escapeRegex cs)"

text \<open>
  The query object the handler builds from the parameters. \<^verbatim>\<open>handleGet\<close> of the
  serverless functions builds its query by the same three tests.
\<close>

definition build_query :: "feed_params \<Rightarrow> mongo_query" where
  "build_query ps =
     \<lparr>q_userId = truthy_string (fp_userId ps),
      q_type =
        (case truthy_string (fp_type ps) of
           None \<Rightarrow> None
         | Some t \<Rightarrow>
             (if toUpperCase t \<in> set [''NEED'', ''HAVE''] then Some (toUpperCase t) else None)),
      q_content =
        (case truthy_string (fp_q ps) of
           None \<Rightarrow> None
         | Some q \<Rightarrow> (if trim q \<noteq> [] then Some (escapeRegex (trim q)) else None))\<rparr>"

text \<open>\<^verbatim>\<open>[...new Set(xs)]\<close>: the elements in the order they first occur.\<close>

definition unique :: "'a list \<Rightarrow> 'a list" where
  "unique xs = fold (\<lambda>x acc. if x \<in> set acc then acc else acc @ [x]) xs []"

text \<open>The \<^verbatim>\<open>Map\<close> filled by \<^verbatim>\<open>users.forEach(user => userMap.set(id, name))\<close>.\<close>

definition user_map :: "user list \<Rightarrow> (string \<rightharpoonup> string)" where
  "user_map us = fold (\<lambda>u m. m(u_id u \<mapsto> u_name u)) us Map.empty"

text \<open>\<^verbatim>\<open>userMap.get(post.userId) || 'Unknown User'\<close>: an empty name is falsy too.\<close>

definition or_unknown :: "string option \<Rightarrow> string" where
  "or_unknown v = (if falsy v then ''Unknown User'' else the v)"

definition format_post :: "string \<Rightarrow> post \<Rightarrow> formatted_post" where
  "format_post userName p =
     \<lparr>f_id = p_id p, f_type = p_type p, f_content = p_content p, f_userId = p_userId p,
      f_userName = userName, f_createdAt = p_createdAt p, f_imageUrl = p_imageUrl p\<rparr>"

definition feed_handler :: "driver \<Rightarrow> rx_engine \<Rightarrow> store \<Rightarrow> feed_params \<Rightarrow> response" where
  "feed_handler drv eng s ps =
     (case Post_find_sort drv eng s (build_query ps) of
        Inl e \<Rightarrow> store_catch e
      | Inr found \<Rightarrow>
          (if falsy (fp_userId ps) then
             (let validUserIds = filter is_object_id (map p_userId found);
                  uniqueUserIds = unique validUserIds;
                  found_users = (case User_find_in drv s uniqueUserIds of
                                   Inl userError \<Rightarrow> []
                                 | Inr us \<Rightarrow> us);
                  userMap = user_map found_users
              in JsonFeed 200 (map (\<lambda>p. format_post (or_unknown (userMap (p_userId p))) p) found))
           else
             (case User_findById drv s (the (fp_userId ps)) of
                Inl e \<Rightarrow> store_catch e
              | Inr u \<Rightarrow>
                  (let userName = (case u of None \<Rightarrow> ''Unknown User'' | Some usr \<Rightarrow> u_name usr)
                   in JsonFeed 200 (map (format_post userName) found)))))"

section \<open>POST /api/posts\<close>

text \<open>
  \<^verbatim>\<open>backend/src/routes/posts.ts\<close>, the handler behind \<^verbatim>\<open>authenticateToken\<close>,
  \<^verbatim>\<open>upload.single('image')\<close> and \<^verbatim>\<open>validatePostData\<close>.
\<close>

text \<open>
  Modelled from the spec: the declaration of the type \<^verbatim>\<open>CreatePostRequest\<close>
  (\<^verbatim>\<open>backend/src/types/post.ts\<close>) is not among the sources. The spec gives the request
  as \<^verbatim>\<open>{ type, content, image? }\<close>; the handler reads \<^verbatim>\<open>type\<close> and \<^verbatim>\<open>content\<close> off the
  body, strings when present, and the image off \<^verbatim>\<open>req.file\<close>: \<open>cb_file\<close> is
  \<^verbatim>\<open>req.file.filename\<close> when a file was uploaded.
\<close>

record create_body =
  cb_type :: "string option"
  cb_content :: "utf16 option"
  cb_file :: "string option"

text \<open>
  \<^verbatim>\<open>validatePostData\<close> and \<^verbatim>\<open>validationResult(req)\<close>: the checks run on the field's
  value as a string (the empty string when the field is absent), every check of a chain
  runs, and \<^verbatim>\<open>withMessage\<close> names the message of the check before it. An error is
  represented by its message. \<open>isLength\<close> is the validation library's test of a text's
  length against a minimum and a maximum; the library counts the characters of a text in
  its own way (a surrogate pair counts once), so the test is a parameter.
\<close>

type_synonym length_test = "utf16 \<Rightarrow> nat \<Rightarrow> nat \<Rightarrow> bool"

definition validatePostData :: "length_test \<Rightarrow> create_body \<Rightarrow> string list" where
  "validatePostData isLength b =
     (if cb_type b \<in> {Some ''NEED'', Some ''HAVE''} then []
      else [''Type must be either NEED or HAVE''])
     @ (if cb_content b = None then [''Invalid value''] else [])
     @ (let c = (case cb_content b of None \<Rightarrow> [] | Some c \<Rightarrow> c) in
        if isLength c 1 1000 then []
        else [''Content must be a string between 1 and 1000 characters''])"

text \<open>
  \<^verbatim>\<open>new Post({ type, content, userId, imageUrl }).save()\<close> under the schema of
  \<^verbatim>\<open>models/Post.ts\<close>: the content is trimmed, \<^verbatim>\<open>type\<close> must be of the enum, content and
  \<^verbatim>\<open>userId\<close> are required, the content is at most 1000 characters; the store refuses a
  second document with the same \<^verbatim>\<open>_id\<close>; \<^verbatim>\<open>timestamps\<close> sets \<^verbatim>\<open>createdAt\<close> to the clock.
  \<open>new_id\<close> is the \<^verbatim>\<open>_id\<close> the driver generated for the document.
\<close>

definition Post_save ::
    "driver \<Rightarrow> store \<Rightarrow> int \<Rightarrow> string \<Rightarrow> string \<Rightarrow> utf16 \<Rightarrow> string \<Rightarrow> string option
      \<Rightarrow> js_error + post \<times> store" where
  "Post_save drv s now new_id type content userId imageUrl =
     (if type \<notin> set [''NEED'', ''HAVE''] \<or> trim content = [] \<or> 1000 < length (trim content)
         \<or> userId = []
      then Inl (Thrown Error ''ValidationError'' ''Post validation failed'')
      else (case drv PostSave of
              Some e \<Rightarrow> Inl e
            | None \<Rightarrow>
                (if new_id \<in> p_id ` set (posts s)
                 then Inl (Thrown Error ''MongoServerError'' ''E11000 duplicate key error'')
                 else (let p = \<lparr>p_id = new_id, p_type = type, p_content = trim content,
                                 p_userId = userId, p_imageUrl = imageUrl, p_createdAt = now\<rparr>
                       in Inr (p, s\<lparr>posts := posts s @ [p]\<rparr>)))))"

definition create_catch :: "js_error \<Rightarrow> response" where
  "create_catch e =
     (if instanceof e Error \<and> err_name e = ''MulterError'' then
        (if sublist ''File too large'' (err_message e)
         then Json 400 False ''File too large. Maximum size is 5MB.''
         else Json 400 False ''File upload error'')
      else if instanceof e Error \<and> err_message e = ''Only image files are allowed''
      then Json 400 False ''Only image files are allowed''
      else if instanceof e Error \<and> err_name e = ''MongoError''
      then Json 500 False ''Database connection error''
      else if instanceof e Error \<and> err_name e = ''ValidationError''
      then JsonError 400 False ''Invalid data provided'' (err_message e)
      else Json 500 False ''Internal server error'')"

definition create_handler ::
    "length_test \<Rightarrow> driver \<Rightarrow> int \<Rightarrow> string \<Rightarrow> store \<Rightarrow> string \<Rightarrow> create_body
      \<Rightarrow> response \<times> store" where
  "create_handler isLength drv now new_id s userId body =
     (if validatePostData isLength body \<noteq> []
      then (JsonErrors 400 False ''Validation failed'' (validatePostData isLength body), s)
      else
        (let type = the (cb_type body); content = the (cb_content body) in
         case User_findById drv s userId of
           Inl e \<Rightarrow> (create_catch e, s)
         | Inr None \<Rightarrow> (Json 404 False ''User not found'', s)
         | Inr (Some user) \<Rightarrow>
             (let imageUrl = (if type = ''HAVE'' \<and> cb_file body \<noteq> None
                              then Some (''/uploads/'' @ the (cb_file body)) else None)
              in case Post_save drv s now new_id type (trim content) userId imageUrl of
                   Inl e \<Rightarrow> (create_catch e, s)
                 | Inr (savedPost, s') \<Rightarrow>
                     (JsonPost 201 True ''Post created successfully''
                        (format_post (u_name user) savedPost), s'))))"

section \<open>What the feed promises, in the specification's words\<close>

text \<open>
  A post matches a free-text query when its content holds the query text as a
  substring, letters compared without case.
\<close>

definition contains_ci :: "utf16 \<Rightarrow> utf16 \<Rightarrow> bool" where
  "contains_ci content text = sublist (map fold_case text) (map fold_case content)"

text \<open>
  A post matches a filter when it has the author asked for (if one is), the type asked
  for (if it is NEED or HAVE in any case; any other value asks for all), and holds the
  trimmed query text (if that is not empty).
\<close>

definition matches_filter :: "feed_params \<Rightarrow> post \<Rightarrow> bool" where
  "matches_filter ps p =
     ((case truthy_string (fp_userId ps) of None \<Rightarrow> True | Some a \<Rightarrow> p_userId p = a)
      \<and> (case truthy_string (fp_type ps) of
            None \<Rightarrow> True
          | Some t \<Rightarrow> toUpperCase t \<notin> {''NEED'', ''HAVE''} \<or> p_type p = toUpperCase t)
      \<and> (case truthy_string (fp_q ps) of
            None \<Rightarrow> True
          | Some q \<Rightarrow> trim q = [] \<or> contains_ci (p_content p) (trim q)))"

section \<open>Sample data\<close>

definition no_faults :: driver where
  "no_faults = (\<lambda>c. None)"

definition users_down :: driver where
  "users_down = (\<lambda>c. case c of
                       UserFind ids \<Rightarrow> Some (Thrown Error ''MongoNetworkError'' ''connection closed'')
                     | _ \<Rightarrow> None)"

definition refuse_operators :: rx_engine where
  "refuse_operators = (\<lambda>as. Inl regex_error)"

definition alice :: user where
  "alice = \<lparr>u_id = ''64b7f0c2a1d3e4f5a6b7c8d9'', u_name = ''Alice'',
            u_email = ''alice@example.com'', u_password = ''hash-of-secret1''\<rparr>"

definition bob :: user where
  "bob = \<lparr>u_id = ''64b7f0c2a1d3e4f5a6b7c8da'', u_name = ''Bob'',
          u_email = ''bob@example.com'', u_password = ''hash-of-secret2''\<rparr>"

definition post1 :: post where
  "post1 = \<lparr>p_id = ''650000000000000000000001'', p_type = ''NEED'',
            p_content = ascii ''need office space'', p_userId = u_id alice, p_imageUrl = None,
            p_createdAt = 1000\<rparr>"

definition post2 :: post where
  "post2 = \<lparr>p_id = ''650000000000000000000002'', p_type = ''HAVE'',
            p_content = ascii ''regex a.*b for sale'', p_userId = u_id bob,
            p_imageUrl = Some ''/uploads/1.png'', p_createdAt = 3000\<rparr>"

definition post3 :: post where
  "post3 = \<lparr>p_id = ''650000000000000000000003'', p_type = ''HAVE'',
            p_content = ascii ''an axxb desk'', p_userId = ''legacy-user'', p_imageUrl = None,
            p_createdAt = 2000\<rparr>"

definition new_post_id :: string where
  "new_post_id = ''650000000000000000000004''"

definition sample_store :: store where
  "sample_store = \<lparr>posts = [post1, post2, post3], users = [alice, bob]\<rparr>"

definition sample_secret :: string where
  "sample_secret = ''s3cr3t''"

definition alice_claims :: jwt_payload where
  "alice_claims = \<lparr>jwt_userId = u_id alice, jwt_email = u_email alice, jwt_username = None,
                    iat = 5, exp = 5 + seven_days\<rparr>"

definition sample_codec :: codec where
  "sample_codec =
     \<lparr>serialize = (\<lambda>t. if sig_key t = sample_secret then ''hdr.alice.sig'' else ''hdr.alice.forged''),
      parse = (\<lambda>t. if t = ''hdr.alice.sig'' then Some (Jws alice_claims sample_secret alice_claims)
                    else if t = ''hdr.alice.forged'' then Some (Jws alice_claims ''guess'' alice_claims)
                    else None)\<rparr>"

definition same_string :: "string \<Rightarrow> string \<Rightarrow> bool" where
  "same_string candidate hash = (hash = ''hash-of-'' @ candidate)"

definition all_posts :: feed_params where
  "all_posts = \<lparr>fp_userId = None, fp_q = None, fp_type = None\<rparr>"

text \<open>
  A query between every kind of white space on the left and every line terminator on
  the right.
\<close>

definition left_pad :: utf16 where
  "left_pad =
     [0x0009, 0x000B, 0x000C, 0x0020, 0x00A0, 0x1680, 0x2000, 0x2001, 0x2002, 0x2003, 0x2004,
      0x2005, 0x2006, 0x2007, 0x2008, 0x2009, 0x200A, 0x202F, 0x205F, 0x3000, 0xFEFF]"

definition right_pad :: utf16 where
  "right_pad = [0x2029, 0x2028, 0x000D, 0x000A]"

definition padded_query :: utf16 where
  "padded_query = left_pad @ ascii ''a.*B'' @ right_pad"

definition search_metachars :: feed_params where
  "search_metachars = \<lparr>fp_userId = None, fp_q = Some padded_query, fp_type = None\<rparr>"

text \<open>A length test that counts code units.\<close>

definition code_units :: length_test where
  "code_units c lo hi = (lo \<le> length c \<and> length c \<le> hi)"

definition need_with_file :: create_body where
  "need_with_file =
     \<lparr>cb_type = Some ''NEED'', cb_content = Some (ascii '' need a desk ''), cb_file = Some ''7.png''\<rparr>"

section \<open>Properties\<close>

subsection \<open>Store lookups\<close>

lemma find_None_iff_id: "find (\<lambda>p. p_id p = i) ps = None \<longleftrightarrow> i \<notin> p_id ` set ps"
  by (induction ps) auto

lemma find_distinct_id:
  "distinct (map p_id ps) \<Longrightarrow> p \<in> set ps \<Longrightarrow> find (\<lambda>x. p_id x = p_id p) ps = Some p"
  by (induction ps) (auto simp: rev_image_eqI)

lemma delete_first_absent:
  "distinct (map p_id ps) \<Longrightarrow> i \<notin> p_id ` set (delete_first (\<lambda>p. p_id p = i) ps)"
  by (induction ps) auto

lemma delete_first_others:
  "p \<in> set ps \<Longrightarrow> p_id p \<noteq> i \<Longrightarrow> p \<in> set (delete_first (\<lambda>p. p_id p = i) ps)"
  by (induction ps) auto

lemma Post_find_sort_subset:
  "Post_find_sort drv eng s qry = Inr ps \<Longrightarrow> set ps \<subseteq> set (posts s)"
  by (auto simp: Post_find_sort_def split: option.splits sum.splits)

lemma find_email_None: "find (\<lambda>u. u_email u = e) us = None \<longleftrightarrow> e \<notin> u_email ` set us"
  by (induction us) auto

lemma find_distinct_user:
  "distinct (map u_id us) \<Longrightarrow> u \<in> set us \<Longrightarrow> find (\<lambda>x. u_id x = u_id u) us = Some u"
  by (induction us) (auto simp: rev_image_eqI)

lemma find_user_None: "find (\<lambda>u. u_id u = i) us = None \<longleftrightarrow> i \<notin> u_id ` set us"
  by (induction us) auto

text \<open>Unfolding the sample data, the case mappings and the test of an identifier.\<close>

lemmas sample_defs = sample_store_def post1_def post2_def post3_def alice_def bob_def
  no_faults_def refuse_operators_def sample_secret_def alice_claims_def sample_codec_def

lemmas lower_defs = toLowerCase_def toLowerChar_def upper_letters_def lower_letters_def

lemmas object_id_defs = casts_def object_id_def is_object_id_def is_hex_def digits_def

lemmas text_defs = ascii_def fold_case_def upper_letters_def lower_letters_def

lemmas ws_defs = is_ws_def white_space_def line_terminators_def

text \<open>A string of 24 hexadecimal digits is cast, to the id with these digits.\<close>

lemma well_formed_casts: "is_object_id i \<Longrightarrow> casts i"
  by (simp add: casts_def)

lemma well_formed_object_id: "is_object_id i \<Longrightarrow> object_id i = toLowerCase i"
  by (simp add: object_id_def is_object_id_def)

subsection \<open>Deleting a post\<close>

text \<open>
  In the standalone server's handler, a request for an id that no version of the store
  layer casts, and a request whose lookup throws, end with the catch branch's answer and
  the store as it was.
\<close>

lemma delete_handler_malformed_id:
  "\<not> casts i \<Longrightarrow>
   delete_handler drv s i uid = (Json 500 False ''Internal server error'', s)"
  by (simp add: delete_handler_def Post_findById_def store_catch_def cast_error_def)

lemma delete_handler_lookup_throws:
  "casts i \<Longrightarrow> drv (PostFindById i) = Some e \<Longrightarrow>
   delete_handler drv s i uid = (store_catch e, s)"
  by (simp add: delete_handler_def Post_findById_def)

lemma store_catch_500: "\<exists>msg. store_catch e = Json 500 False msg"
  by (simp add: store_catch_def)

text \<open>
  The standalone server's handler tests the owner. For a delete request whose id is cast
  and whose store calls (the lookup by id and, for the requester's own post, the delete)
  complete: when no post has the id the answer is 404 "Post not found"; when the post is
  another author's the answer is 403 and the store is left as it was; when the post is
  the requester's own the answer is 200 and no later query returns a post with that id.
  Ids are unique in the collection.
\<close>

lemma delete_handler_owner_check:
  assumes "distinct (map p_id (posts s))"
    and "casts i"
    and "drv (PostFindById i) = None"
    and "drv (PostFindByIdAndDelete i) = None"
  shows "(object_id i \<notin> p_id ` set (posts s) \<longrightarrow>
            delete_handler drv s i uid = (Json 404 False ''Post not found'', s))
       \<and> (\<forall>p \<in> set (posts s). p_id p = object_id i \<and> p_userId p \<noteq> uid \<longrightarrow>
            delete_handler drv s i uid = (Json 403 False ''You can only delete your own posts'', s))
       \<and> (\<forall>p \<in> set (posts s). p_id p = object_id i \<and> p_userId p = uid \<longrightarrow>
            fst (delete_handler drv s i uid) = Json 200 True ''Post deleted successfully''
            \<and> (\<forall>drv' eng qry ps.
                  Post_find_sort drv' eng (snd (delete_handler drv s i uid)) qry = Inr ps
                  \<longrightarrow> object_id i \<notin> p_id ` set ps))"
proof (intro conjI impI ballI)
  assume "object_id i \<notin> p_id ` set (posts s)"
  then have "find (\<lambda>p. p_id p = object_id i) (posts s) = None"
    by (simp add: find_None_iff_id)
  with assms(2,3) show "delete_handler drv s i uid = (Json 404 False ''Post not found'', s)"
    by (simp add: delete_handler_def Post_findById_def)
next
  fix p assume p: "p \<in> set (posts s)" and "p_id p = object_id i \<and> p_userId p \<noteq> uid"
  then have "find (\<lambda>x. p_id x = object_id i) (posts s) = Some p" and "p_userId p \<noteq> uid"
    using find_distinct_id [OF assms(1) p] by auto
  with assms(2,3)
  show "delete_handler drv s i uid = (Json 403 False ''You can only delete your own posts'', s)"
    by (simp add: delete_handler_def Post_findById_def)
next
  fix p assume p: "p \<in> set (posts s)" and own: "p_id p = object_id i \<and> p_userId p = uid"
  then have found: "find (\<lambda>x. p_id x = object_id i) (posts s) = Some p"
    using find_distinct_id [OF assms(1) p] by auto
  have run: "delete_handler drv s i uid =
      (Json 200 True ''Post deleted successfully'',
       s\<lparr>posts := delete_first (\<lambda>p. p_id p = object_id i) (posts s)\<rparr>)"
    using found own assms(2-4)
    by (simp add: delete_handler_def Post_findById_def Post_findByIdAndDelete_def)
  show "fst (delete_handler drv s i uid) = Json 200 True ''Post deleted successfully''"
    by (simp add: run)
  show "\<forall>drv' eng qry ps.
          Post_find_sort drv' eng (snd (delete_handler drv s i uid)) qry = Inr ps
          \<longrightarrow> object_id i \<notin> p_id ` set ps"
  proof (intro allI impI)
    fix drv' eng qry ps
    assume "Post_find_sort drv' eng (snd (delete_handler drv s i uid)) qry = Inr ps"
    then have "set ps \<subseteq> set (posts (snd (delete_handler drv s i uid)))"
      by (rule Post_find_sort_subset)
    then have "set ps \<subseteq> set (delete_first (\<lambda>p. p_id p = object_id i) (posts s))"
      by (simp add: run)
    with delete_first_absent [OF assms(1), of "object_id i"]
    show "object_id i \<notin> p_id ` set ps"
      by blast
  qed
qed

text \<open>
  The serverless function asks for a header that starts with \<^verbatim>\<open>Bearer\<close> and a space and
  never for the requester: whenever the post exists and the store calls complete, the
  post is deleted and the answer is 200, whoever wrote the post.
\<close>

lemma api_delete_handler_any_requester:
  assumes "distinct (map p_id (posts s))"
    and "casts i"
    and "drv Connect = None"
    and "drv (PostFindById i) = None"
    and "drv (PostFindByIdAndDelete i) = None"
    and "p \<in> set (posts s)" and "p_id p = object_id i"
  shows "api_delete_handler drv s ''DELETE'' (Some i) (Some (''Bearer '' @ anything))
       = (JsonMessage 200 ''Post deleted successfully'',
          s\<lparr>posts := delete_first (\<lambda>p. p_id p = object_id i) (posts s)\<rparr>)"
proof -
  have "find (\<lambda>x. p_id x = object_id i) (posts s) = Some p"
    using find_distinct_id [OF assms(1,6)] assms(7) by simp
  moreover have "i \<noteq> []"
    using assms(2) by (auto simp: casts_def is_object_id_def)
  ultimately show ?thesis
    using assms(2-5)
    by (simp add: api_delete_handler_def falsy_def startsWith_def Post_findById_def
          Post_findByIdAndDelete_def)
qed

text \<open>
  Claim C1, at the input where the code departs from it. The claim: a delete request for
  a post of another author fails with 403 and the post is kept. The standalone server's
  handler does so (the lemma above, and the last equation below). The serverless
  function that deletes a post has its test of the owner commented out and verifies no
  token: a request that names Alice's post and carries any header starting with
  \<^verbatim>\<open>Bearer\<close> is answered 200, and the post is gone from the collection.
\<close>

theorem api_delete_handler_deletes_others_post:
  "p_userId post1 = u_id alice \<and> u_id bob \<noteq> u_id alice
   \<and> api_delete_handler no_faults sample_store ''DELETE'' (Some (p_id post1))
        (Some ''Bearer token-of-bob'')
     = (JsonMessage 200 ''Post deleted successfully'', sample_store\<lparr>posts := [post2, post3]\<rparr>)
   \<and> delete_handler no_faults sample_store (p_id post1) (u_id bob)
     = (Json 403 False ''You can only delete your own posts'', sample_store)"
  by (simp add: api_delete_handler_def delete_handler_def falsy_def startsWith_def
        Post_findById_def Post_findByIdAndDelete_def object_id_defs lower_defs sample_defs)

subsection \<open>Escaped patterns\<close>

text \<open>
  The class the handler escapes covers every metacharacter of the engine, and holds no
  letter or digit, so an escaped text is read as that text, character by character.
\<close>

lemma pcre_meta_escaped: "pcre_meta c \<Longrightarrow> escape_class c"
  by (auto simp: pcre_meta_def escape_class_def ascii_def)

lemma escaped_not_alnum: "escape_class c \<Longrightarrow> \<not> is_alnum c"
  by (auto simp: escape_class_def is_alnum_def bslash_def lower_letters_def upper_letters_def
        digits_def ascii_def)

lemma bslash_escaped: "escape_class bslash"
  by (simp add: escape_class_def)

lemma rx_atoms_escapeRegex: "rx_atoms (escapeRegex s) = Some (map Lit s)"
proof (induction s)
  case Nil
  show ?case by simp
next
  case (Cons c s)
  show ?case
  proof (cases "escape_class c")
    case True
    then show ?thesis
      using Cons escaped_not_alnum [OF True] by simp
  next
    case False
    then have "c \<noteq> bslash" "\<not> pcre_meta c"
      using bslash_escaped pcre_meta_escaped by auto
    with False Cons show ?thesis by simp
  qed
qed

lemma literal_Lit: "literal (map Lit s) = Some s"
  by (induction s) auto

lemma regex_compile_escaped: "regex_compile eng (escapeRegex s) = Inr (ci_search s)"
  by (simp add: regex_compile_def rx_atoms_escapeRegex literal_Lit)

lemma ci_prefix_iff: "ci_prefix n h \<longleftrightarrow> prefix (map fold_case n) (map fold_case h)"
  by (induction n h rule: ci_prefix.induct) auto

lemma ci_search_iff: "ci_search n h \<longleftrightarrow> sublist (map fold_case n) (map fold_case h)"
  by (induction h) (auto simp: ci_prefix_iff sublist_Cons_right)

lemma ci_search_contains: "ci_search n h = contains_ci h n"
  by (simp add: ci_search_iff contains_ci_def)

text \<open>
  Trimming takes the white space off both ends and nothing else: a text between two runs
  of white space, itself neither starting nor ending with white space, is what is left.
\<close>

lemma dropWhile_all: "list_all P xs \<Longrightarrow> dropWhile P (xs @ ys) = dropWhile P ys"
  by (induction xs) auto

lemma trim_blank: "list_all is_ws q \<Longrightarrow> trim q = []"
  by (auto simp: trim_def list_all_iff dest: set_dropWhileD)

lemma trim_core:
  assumes "list_all is_ws l" and "list_all is_ws r"
    and "t \<noteq> []" and "\<not> is_ws (hd t)" and "\<not> is_ws (last t)"
  shows "trim (l @ t @ r) = t"
proof -
  have front: "dropWhile is_ws (l @ t @ r) = t @ r"
    using assms(1,3,4) by (cases t) (simp_all add: dropWhile_all)
  have "list_all is_ws (rev r)"
    using assms(2) by (simp add: list_all_iff)
  then have "dropWhile is_ws (rev r @ rev t) = dropWhile is_ws (rev t)"
    by (rule dropWhile_all)
  also have "\<dots> = rev t"
    using assms(3,5) by (cases "rev t") (auto simp: last_rev [symmetric] hd_rev)
  finally show ?thesis
    by (simp add: trim_def front)
qed

lemma trim_sample: "trim padded_query = ascii ''a.*B''"
  by (simp add: trim_def padded_query_def left_pad_def right_pad_def ascii_def ws_defs)

text \<open>
  Characters that look like white space and are none to \<^verbatim>\<open>trim\<close> (the next-line
  control, the Mongolian vowel separator, the zero-width space) stay.
\<close>

lemma trim_keeps: "trim [0x0085, 0x180E, 0x200B] = [0x0085, 0x180E, 0x200B]"
  by (simp add: trim_def ws_defs)

subsection \<open>The feed's query\<close>

lemma compile_build_query:
  "\<exists>m. compile_query eng (build_query ps) = Inr m \<and> (\<forall>p. m p = matches_filter ps p)"
  by (auto simp: compile_query_def build_query_def matches_filter_def field_eq_def
        regex_compile_escaped ci_search_contains split: option.splits)

lemma Post_find_sort_returns:
  assumes "drv PostFind = None"
  shows "\<exists>found. Post_find_sort drv eng s (build_query ps) = Inr found"
proof -
  obtain m where "compile_query eng (build_query ps) = Inr m"
    using compile_build_query by blast
  with assms show ?thesis by (simp add: Post_find_sort_def)
qed

lemma sorted_desc_sort_key:
  "sorted_wrt (\<lambda>a b. p_createdAt b \<le> p_createdAt a) (sort_key (\<lambda>p. - p_createdAt p) ps)"
proof -
  have "sorted (map (\<lambda>p. - p_createdAt p) (sort_key (\<lambda>p. - p_createdAt p) ps))"
    by (rule sorted_sort_key)
  then show ?thesis
    by (simp add: sorted_map)
qed

text \<open>
  Claim C6. For every filter the request can carry (author, type and free text in any
  combination, or none) and every collection of posts, the query the feed handler runs
  returns exactly the posts that match the filter, each as often as it is stored, ordered
  by creation time, newest first. Read with the store's find call completing.
\<close>

theorem find_newest_first:
  assumes "drv PostFind = None"
  shows "\<exists>found. Post_find_sort drv eng s (build_query ps) = Inr found
           \<and> mset found = mset (filter (matches_filter ps) (posts s))
           \<and> sorted_wrt (\<lambda>a b. p_createdAt b \<le> p_createdAt a) found"
proof -
  obtain m where m: "compile_query eng (build_query ps) = Inr m" "\<And>p. m p = matches_filter ps p"
    using compile_build_query by blast
  then have eq: "filter m (posts s) = filter (matches_filter ps) (posts s)"
    by (simp cong: filter_cong)
  have run: "Post_find_sort drv eng s (build_query ps)
      = Inr (sort_key (\<lambda>p. - p_createdAt p) (filter (matches_filter ps) (posts s)))"
    using assms m(1) eq by (simp add: Post_find_sort_def)
  show ?thesis
    by (simp add: run sorted_desc_sort_key)
qed

theorem find_newest_first_witness:
  "no_faults PostFind = None
   \<and> (\<exists>found. Post_find_sort no_faults refuse_operators sample_store (build_query all_posts) = Inr found
          \<and> mset found = mset (filter (matches_filter all_posts) (posts sample_store))
          \<and> sorted_wrt (\<lambda>a b. p_createdAt b \<le> p_createdAt a) found)
   \<and> Post_find_sort no_faults refuse_operators sample_store (build_query all_posts)
        = Inr [post2, post3, post1]"
proof -
  have nf: "no_faults PostFind = None" by (simp add: no_faults_def)
  have run: "Post_find_sort no_faults refuse_operators sample_store (build_query all_posts)
        = Inr [post2, post3, post1]"
    by (simp add: Post_find_sort_def compile_query_def build_query_def all_posts_def
          truthy_string_def field_eq_def sample_defs)
  from nf find_newest_first [of no_faults refuse_operators sample_store all_posts] run
  show ?thesis by blast
qed

text \<open>The response lists the posts in the order the query returned them.\<close>

lemma feed_response_order:
  assumes "feed_handler drv eng s ps = JsonFeed n fs"
  shows "\<exists>found. Post_find_sort drv eng s (build_query ps) = Inr found
            \<and> map f_id fs = map p_id found \<and> map f_createdAt fs = map p_createdAt found"
  using assms
  by (auto simp: feed_handler_def store_catch_def format_post_def Let_def comp_def
        split: sum.splits if_splits option.splits)

text \<open>
  Claim C7. Whatever the free-text parameter holds, the query the handler builds
  compiles, with any engine: the pattern never reaches the engine's operators. When the
  parameter is a text \<open>t\<close> between two runs of white space (\<open>t\<close> not empty, neither
  starting nor ending with white space), a post satisfies the query exactly when it
  passes the author and type constraints and its content holds \<open>t\<close> as a substring,
  letters compared without case. When the parameter is absent or all white space, the
  query asks for the author and type constraints only.
\<close>

theorem free_text_is_literal:
  "\<exists>m. compile_query eng (build_query ps) = Inr m
     \<and> (\<forall>l t r. fp_q ps = Some (l @ t @ r) \<and> list_all is_ws l \<and> list_all is_ws r
                \<and> t \<noteq> [] \<and> \<not> is_ws (hd t) \<and> \<not> is_ws (last t) \<longrightarrow>
          (\<forall>p. m p = (field_eq (q_userId (build_query ps)) (p_userId p)
                       \<and> field_eq (q_type (build_query ps)) (p_type p)
                       \<and> contains_ci (p_content p) t)))
     \<and> (fp_q ps = None \<or> list_all is_ws (the (fp_q ps)) \<longrightarrow>
          (\<forall>p. m p = (field_eq (q_userId (build_query ps)) (p_userId p)
                       \<and> field_eq (q_type (build_query ps)) (p_type p))))"
proof (cases "truthy_string (fp_q ps) = None \<or> trim (the (fp_q ps)) = []")
  case True
  then have none: "q_content (build_query ps) = None"
    by (auto simp: build_query_def truthy_string_def split: option.splits if_splits)
  let ?m = "\<lambda>p. field_eq (q_userId (build_query ps)) (p_userId p)
                 \<and> field_eq (q_type (build_query ps)) (p_type p)"
  have run: "compile_query eng (build_query ps) = Inr ?m"
    by (simp add: compile_query_def none)
  have "False" if "fp_q ps = Some (l @ t @ r)" "list_all is_ws l" "list_all is_ws r"
      "t \<noteq> []" "\<not> is_ws (hd t)" "\<not> is_ws (last t)" for l t r
  proof -
    have "trim (the (fp_q ps)) = t"
      using that by (simp add: trim_core)
    moreover have "truthy_string (fp_q ps) \<noteq> None"
      using that(1,4) by (simp add: truthy_string_def falsy_def)
    ultimately show False
      using True that(4) by simp
  qed
  then show ?thesis
    unfolding run by blast
next
  case False
  then obtain q where q: "fp_q ps = Some q" "q \<noteq> []" "trim q \<noteq> []"
    by (auto simp: truthy_string_def falsy_def split: if_splits)
  then have pat: "q_content (build_query ps) = Some (escapeRegex (trim q))"
    by (simp add: build_query_def truthy_string_def falsy_def)
  let ?m = "\<lambda>p. field_eq (q_userId (build_query ps)) (p_userId p)
                 \<and> field_eq (q_type (build_query ps)) (p_type p)
                 \<and> ci_search (trim q) (p_content p)"
  have run: "compile_query eng (build_query ps) = Inr ?m"
    by (simp add: compile_query_def pat regex_compile_escaped)
  have blank: "\<not> list_all is_ws q"
    using q(3) trim_blank by blast
  have "trim q = t" if "q = l @ t @ r" "list_all is_ws l" "list_all is_ws r"
      "t \<noteq> []" "\<not> is_ws (hd t)" "\<not> is_ws (last t)" for l t r
    using that by (simp add: trim_core)
  then show ?thesis
    unfolding run using q(1) blank by (auto simp: ci_search_contains)
qed

theorem free_text_is_literal_witness:
  "fp_q search_metachars = Some (left_pad @ ascii ''a.*B'' @ right_pad)
   \<and> list_all is_ws left_pad \<and> list_all is_ws right_pad
   \<and> ascii ''a.*B'' \<noteq> [] \<and> \<not> is_ws (hd (ascii ''a.*B'')) \<and> \<not> is_ws (last (ascii ''a.*B''))
   \<and> (\<exists>m. compile_query refuse_operators (build_query search_metachars) = Inr m
          \<and> m post2 \<and> \<not> m post3)"
proof -
  have q: "fp_q search_metachars = Some (left_pad @ ascii ''a.*B'' @ right_pad)"
    by (simp add: search_metachars_def padded_query_def)
  have ws: "list_all is_ws left_pad" "list_all is_ws right_pad"
    by (simp_all add: left_pad_def right_pad_def ws_defs)
  have core: "ascii ''a.*B'' \<noteq> []" "\<not> is_ws (hd (ascii ''a.*B''))"
    "\<not> is_ws (last (ascii ''a.*B''))"
    by (simp_all add: ascii_def ws_defs)
  have fe: "q_userId (build_query search_metachars) = None"
    "q_type (build_query search_metachars) = None"
    by (simp_all add: build_query_def search_metachars_def truthy_string_def)
  have yes: "contains_ci (p_content post2) (ascii ''a.*B'')"
    by (simp add: contains_ci_def text_defs post2_def sublist_Cons_right)
  have no: "\<not> contains_ci (p_content post3) (ascii ''a.*B'')"
    by (simp add: contains_ci_def text_defs post3_def sublist_Cons_right)
  from free_text_is_literal [of refuse_operators search_metachars]
  obtain m where m: "compile_query refuse_operators (build_query search_metachars) = Inr m"
    and lit: "\<forall>l t r. fp_q search_metachars = Some (l @ t @ r) \<and> list_all is_ws l
                \<and> list_all is_ws r \<and> t \<noteq> [] \<and> \<not> is_ws (hd t) \<and> \<not> is_ws (last t) \<longrightarrow>
          (\<forall>p. m p = (field_eq (q_userId (build_query search_metachars)) (p_userId p)
                       \<and> field_eq (q_type (build_query search_metachars)) (p_type p)
                       \<and> contains_ci (p_content p) t))"
    by blast
  from lit [rule_format, of left_pad "ascii ''a.*B''" right_pad] q ws core
  have "\<forall>p. m p = contains_ci (p_content p) (ascii ''a.*B'')"
    by (simp add: fe field_eq_def)
  with yes no m q ws core show ?thesis by blast
qed

subsection \<open>Author names in the feed\<close>

lemma set_unique_acc:
  "set (fold (\<lambda>x acc. if x \<in> set acc then acc else acc @ [x]) xs acc) = set xs \<union> set acc"
  by (induction xs arbitrary: acc) auto

lemma set_unique: "set (unique xs) = set xs"
  by (simp add: unique_def set_unique_acc)

lemma user_map_fold:
  "distinct (map u_id us) \<Longrightarrow>
   fold (\<lambda>u m. m(u_id u \<mapsto> u_name u)) us m i
     = (case find (\<lambda>u. u_id u = i) us of Some u \<Rightarrow> Some (u_name u) | None \<Rightarrow> m i)"
proof (induction us arbitrary: m)
  case Nil
  show ?case by simp
next
  case (Cons u us)
  then have "find (\<lambda>x. u_id x = u_id u) us = None"
    by (auto simp: find_user_None)
  with Cons show ?case by (auto split: option.splits)
qed

lemma user_map_lookup:
  "distinct (map u_id us) \<Longrightarrow> user_map us i = map_option u_name (find (\<lambda>u. u_id u = i) us)"
  by (simp add: user_map_def user_map_fold split: option.splits)

lemma find_filter_users:
  "find (\<lambda>u. u_id u = k) (filter (\<lambda>u. u_id u \<in> L) us)
     = (if k \<in> L then find (\<lambda>u. u_id u = k) us else None)"
  by (induction us) auto

lemma find_user_Some: "find (\<lambda>u. u_id u = k) us = Some u \<Longrightarrow> u \<in> set us \<and> u_id u = k"
  by (induction us) (auto split: if_splits)

text \<open>
  The ids the batch lookup is given are all of 24 hexadecimal digits, which every
  version of the store layer casts, so the lookup does not throw over an id: ids of
  another shape never reach it.
\<close>

lemma batch_ids_well_formed: "list_all is_object_id (unique (filter is_object_id xs))"
  by (simp add: list_all_iff set_unique)

lemma batch_ids_cast: "list_all casts (unique (filter is_object_id xs))"
  by (simp add: list_all_iff set_unique well_formed_casts)

text \<open>
  Without an author filter the handler never fails once the posts are found: a user
  lookup that throws leaves every post with the fallback name.
\<close>

lemma feed_batch_never_fails:
  assumes "falsy (fp_userId ps)" and "drv PostFind = None"
  shows "\<exists>fs. feed_handler drv eng s ps = JsonFeed 200 fs"
proof -
  obtain found where "Post_find_sort drv eng s (build_query ps) = Inr found"
    using Post_find_sort_returns assms(2) by blast
  with assms(1) show ?thesis
    by (simp add: feed_handler_def Let_def)
qed

lemma feed_batch_lookup_throws:
  assumes "falsy (fp_userId ps)"
    and "Post_find_sort drv eng s (build_query ps) = Inr found"
    and "drv (UserFind (unique (filter is_object_id (map p_userId found)))) = Some e"
  shows "feed_handler drv eng s ps = JsonFeed 200 (map (format_post ''Unknown User'') found)"
  using assms
  by (simp add: feed_handler_def Let_def User_find_in_def user_map_def or_unknown_def falsy_def
        batch_ids_cast)

text \<open>
  Without an author filter, and with the lookup completing: a post is named after the
  user whose id is its author id, when there is one and that user has a name, and is
  named "Unknown User" otherwise. The users' ids are unique, and are identifiers as the
  store renders them.
\<close>

lemma feed_batch_names:
  assumes "falsy (fp_userId ps)"
    and "Post_find_sort drv eng s (build_query ps) = Inr found"
    and "drv (UserFind (unique (filter is_object_id (map p_userId found)))) = None"
    and "distinct (map u_id (users s))"
    and "\<forall>u \<in> set (users s). is_object_id (u_id u) \<and> toLowerCase (u_id u) = u_id u"
  shows "feed_handler drv eng s ps = JsonFeed 200
     (map (\<lambda>p. format_post
                  (case find (\<lambda>u. u_id u = p_userId p) (users s) of
                     Some u \<Rightarrow> (if u_name u \<noteq> [] then u_name u else ''Unknown User'')
                   | None \<Rightarrow> ''Unknown User'') p) found)"
proof -
  let ?ids = "unique (filter is_object_id (map p_userId found))"
  let ?us = "filter (\<lambda>u. u_id u \<in> object_id ` set ?ids) (users s)"
  have d: "distinct (map u_id ?us)"
    using assms(4) by (simp add: distinct_map_filter)
  have name: "or_unknown (user_map ?us (p_userId p))
      = (case find (\<lambda>u. u_id u = p_userId p) (users s) of
           Some u \<Rightarrow> (if u_name u \<noteq> [] then u_name u else ''Unknown User'')
         | None \<Rightarrow> ''Unknown User'')" if "p \<in> set found" for p
  proof (cases "find (\<lambda>u. u_id u = p_userId p) (users s)")
    case None
    then show ?thesis
      by (simp add: user_map_lookup [OF d] find_filter_users or_unknown_def falsy_def)
  next
    case (Some u)
    then have u: "u \<in> set (users s)" "u_id u = p_userId p"
      using find_user_Some by fastforce+
    with assms(5) have "is_object_id (p_userId p)" "object_id (p_userId p) = p_userId p"
      by (auto simp: well_formed_object_id)
    with that have "p_userId p \<in> object_id ` set ?ids"
      by (force simp: set_unique)
    with Some show ?thesis
      by (simp add: user_map_lookup [OF d] find_filter_users or_unknown_def falsy_def)
  qed
  show ?thesis
    using assms(1-3) name
    by (simp add: feed_handler_def Let_def User_find_in_def batch_ids_cast
          cong: map_cong)
qed

text \<open>
  With an author filter the single lookup is neither preceded by the test of the id nor
  guarded: when it throws, the request is answered by the catch branch.
\<close>

lemma feed_by_author_malformed_id:
  assumes "fp_userId ps = Some a" and "a \<noteq> []" and "\<not> casts a"
    and "drv PostFind = None"
  shows "feed_handler drv eng s ps = Json 500 False ''Internal server error''"
proof -
  obtain found where "Post_find_sort drv eng s (build_query ps) = Inr found"
    using Post_find_sort_returns assms(4) by blast
  with assms(1-3) show ?thesis
    by (simp add: feed_handler_def falsy_def User_findById_def store_catch_def cast_error_def)
qed

lemma feed_by_author_lookup_throws:
  assumes "fp_userId ps = Some a" and "is_object_id a"
    and "drv PostFind = None"
    and "drv (UserFindById a) = Some e"
  shows "feed_handler drv eng s ps = store_catch e"
proof -
  have "a \<noteq> []" using assms(2) by (auto simp: is_object_id_def)
  moreover obtain found where "Post_find_sort drv eng s (build_query ps) = Inr found"
    using Post_find_sort_returns assms(3) by blast
  ultimately show ?thesis
    using assms(1,2,4) by (simp add: feed_handler_def falsy_def User_findById_def well_formed_casts)
qed

text \<open>
  Claim C8, at the input where the code departs from it. The claim: ids that are not
  well-formed are kept out of the batch lookup, every post of the output carries the
  author's name or "Unknown User", and a failing lookup degrades to that fallback instead
  of failing the feed request. The batch path does all of this (the lemmas above). The
  path taken when the request filters by author does not: \<^verbatim>\<open>GET /api/posts?userId=abc\<close>
  is answered 500, because the lookup of the malformed id throws; on the batch path a
  post of such an author is listed with the fallback name, and so is every post when
  the lookup itself fails.
\<close>

theorem feed_by_author_lookup_failure:
  "feed_handler no_faults refuse_operators sample_store
       \<lparr>fp_userId = Some ''abc'', fp_q = None, fp_type = None\<rparr>
     = Json 500 False ''Internal server error''
   \<and> feed_handler no_faults refuse_operators sample_store all_posts
     = JsonFeed 200 [format_post ''Bob'' post2, format_post ''Unknown User'' post3,
         format_post ''Alice'' post1]
   \<and> feed_handler users_down refuse_operators sample_store all_posts
     = JsonFeed 200 [format_post ''Unknown User'' post2, format_post ''Unknown User'' post3,
         format_post ''Unknown User'' post1]"
  by (simp add: feed_handler_def Post_find_sort_def compile_query_def build_query_def
        truthy_string_def field_eq_def User_findById_def User_find_in_def
        store_catch_def instanceof_def cast_error_def all_posts_def object_id_defs lower_defs
        unique_def user_map_def or_unknown_def falsy_def users_down_def Let_def sample_defs)

subsection \<open>Tokens\<close>

text \<open>
  Claim C9. With a secret configured, a token issued for a user verifies under that
  secret at any time before its expiry (seven days after issue), and the claims verified
  carry the user's id as subject (and the user's email). Read with the library's
  serialisation read back by its parser for this token.
\<close>

theorem verify_issue_roundtrip:
  assumes "\<not> falsy env"
    and "parse cd (serialize cd (signed_token now uid em None (the env)))
           = Some (signed_token now uid em None (the env))"
    and "serialize cd (signed_token now uid em None (the env)) \<noteq> []"
    and "later div 1000 < now div 1000 + seven_days"
  shows "\<exists>tok d. generateToken cd now env uid em = Inr tok
           \<and> jwt_verify cd later (Some tok) (the env) = Inr d
           \<and> jwt_userId d = uid \<and> jwt_email d = em"
  using assms
  by (simp add: generateToken_def jwt_sign_def jwt_verify_def)
     (simp add: signed_token_def signature_verifies_def Let_def)

theorem verify_issue_roundtrip_witness:
  "\<not> falsy (Some sample_secret)
   \<and> parse sample_codec (serialize sample_codec
         (signed_token 5000 (u_id alice) (u_email alice) None sample_secret))
       = Some (signed_token 5000 (u_id alice) (u_email alice) None sample_secret)
   \<and> serialize sample_codec (signed_token 5000 (u_id alice) (u_email alice) None sample_secret) \<noteq> []
   \<and> (9000::int) div 1000 < 5000 div 1000 + seven_days
   \<and> (\<exists>tok d. generateToken sample_codec 5000 (Some sample_secret) (u_id alice) (u_email alice) = Inr tok
         \<and> jwt_verify sample_codec 9000 (Some tok) sample_secret = Inr d
         \<and> jwt_userId d = u_id alice \<and> jwt_email d = u_email alice)"
proof -
  have h1: "\<not> falsy (Some sample_secret)"
    by (simp add: falsy_def sample_secret_def)
  have h2: "parse sample_codec (serialize sample_codec
         (signed_token 5000 (u_id alice) (u_email alice) None (the (Some sample_secret))))
       = Some (signed_token 5000 (u_id alice) (u_email alice) None (the (Some sample_secret)))"
    by (simp add: sample_codec_def signed_token_def alice_claims_def Let_def)
  have h3: "serialize sample_codec
      (signed_token 5000 (u_id alice) (u_email alice) None (the (Some sample_secret))) \<noteq> []"
    by (simp add: sample_codec_def signed_token_def Let_def)
  have h4: "(9000::int) div 1000 < 5000 div 1000 + seven_days"
    by (simp add: seven_days_def)
  from verify_issue_roundtrip [OF h1 h2 h3 h4] h1 h2 h3 h4
  show ?thesis by simp
qed

subsection \<open>Identity middleware\<close>

text \<open>A request without the header is refused before anything is verified.\<close>

lemma authenticateToken_no_header:
  "authenticateToken cd drv now env s None = Respond (Json 401 False ''Access token required'')"
  by (simp add: authenticateToken_def header_token_def falsy_def)

text \<open>
  The serverless \<^verbatim>\<open>verifyToken(req)\<close> refuses every header that does not start with
  \<^verbatim>\<open>Bearer\<close> and a space, whatever the token library would say of the rest.
\<close>

lemma api_verifyToken_other_scheme:
  "authHeader = None \<or> \<not> startsWith (the authHeader) ''Bearer '' \<Longrightarrow>
   api_verifyToken cd now env authHeader = None"
  by (auto simp: api_verifyToken_def split: option.splits)

text \<open>
  The standalone server's middleware reads the second word of the header and never the
  first: two headers that differ only in their scheme get the same treatment.
\<close>

lemma split_on_no_sep: "sep \<notin> set w \<Longrightarrow> split_on sep w = [w]"
  by (induction w) auto

lemma split_on_nonempty: "split_on sep cs \<noteq> []"
  by (induction cs) (auto split: list.splits)

lemma split_on_first: "sep \<notin> set w \<Longrightarrow> split_on sep (w @ sep # rest) = w # split_on sep rest"
  by (induction w) auto

lemma header_token_second_word:
  assumes "CHR '' '' \<notin> set w"
  shows "header_token (Some (w @ CHR '' '' # rest)) = Some (hd (split_on (CHR '' '') rest))"
proof -
  obtain x xs where "split_on (CHR '' '') rest = x # xs"
    using split_on_nonempty by (cases "split_on (CHR '' '') rest") auto
  then show ?thesis
    using assms by (simp add: header_token_def falsy_def index_def split_on_first)
qed

lemma authenticateToken_scheme_blind:
  assumes "CHR '' '' \<notin> set w" and "CHR '' '' \<notin> set w'"
  shows "authenticateToken cd drv now env s (Some (w @ CHR '' '' # rest))
       = authenticateToken cd drv now env s (Some (w' @ CHR '' '' # rest))"
  using assms by (simp add: authenticateToken_def header_token_second_word)

text \<open>
  Claim C2, at the input where the code departs from it. The claim: a request whose
  Authorization header is absent or of a scheme other than Bearer is refused with 401,
  without the token being verified. The standalone server's middleware refuses an absent
  header, but it takes the second word of the header whatever the first word is: a
  request with \<^verbatim>\<open>Authorization: Basic <token>\<close> carrying a valid token is verified and
  passed on with the identity attached.
\<close>

theorem authenticateToken_accepts_other_scheme:
  "authenticateToken sample_codec no_faults 5000 (Some sample_secret) sample_store
       (Some ''Basic hdr.alice.sig'')
     = Next \<lparr>ru_id = u_id alice, ru_email = u_email alice\<rparr>"
  by (simp add: authenticateToken_def header_token_def falsy_def index_def jwt_verify_def
        signature_verifies_def User_findById_def object_id_defs lower_defs
        seven_days_def Let_def sample_defs)

text \<open>
  A request with a Bearer token that verifies, for a user the store holds, is passed on
  with that user's id and email attached.
\<close>

lemma authenticateToken_accepts_issued:
  assumes "CHR '' '' \<notin> set tok" and "tok \<noteq> []" and "\<not> falsy env"
    and "jwt_verify cd now (Some tok) (the env) = Inr d"
    and "is_object_id (jwt_userId d)"
    and "drv (UserFindById (jwt_userId d)) = None"
    and "distinct (map u_id (users s))"
    and "u \<in> set (users s)" and "u_id u = toLowerCase (jwt_userId d)"
  shows "authenticateToken cd drv now env s (Some (''Bearer '' @ tok))
       = Next \<lparr>ru_id = u_id u, ru_email = u_email u\<rparr>"
proof -
  have "CHR '' '' \<notin> set ''Bearer''" by simp
  then have "header_token (Some (''Bearer'' @ CHR '' '' # tok))
      = Some (hd (split_on (CHR '' '') tok))"
    by (rule header_token_second_word)
  then have tok: "header_token (Some (''Bearer '' @ tok)) = Some tok"
    using assms(1) by (simp add: split_on_no_sep)
  have "find (\<lambda>x. u_id x = u_id u) (users s) = Some u"
    using assms(7,8) by (rule find_distinct_user)
  then have "find (\<lambda>x. u_id x = toLowerCase (jwt_userId d)) (users s) = Some u"
    using assms(9) by simp
  with tok assms(2-6) show ?thesis
    by (simp add: authenticateToken_def User_findById_def falsy_def well_formed_casts
          well_formed_object_id)
qed

text \<open>
  The branch of the catch block that answers "Token expired" is never taken: an expired
  token's error is an instance of the class the first test asks for.
\<close>

lemma auth_catch_never_expired: "auth_catch e \<noteq> Json 401 False ''Token expired''"
  by (cases e; cases "cls e") (auto simp: auth_catch_def instanceof_def)

text \<open>
  Claim C3, at the input where the code departs from it. The claim: an expired token
  fails verification as Expired, and the caller's outcome differs observably from that of
  a token with a corrupted signature and from that of a malformed token. The library does
  raise different errors, but the middleware answers all three alike: for a token past
  its expiry, for a token signed with another key and for a string that is no token the
  response is 401 "Invalid token".
\<close>

theorem expired_answer_same_as_invalid:
  "jwt_verify sample_codec (1000 * (5 + seven_days)) (Some ''hdr.alice.sig'') sample_secret
     = Inl (Thrown TokenExpiredError ''TokenExpiredError'' ''jwt expired'')
   \<and> authenticateToken sample_codec no_faults (1000 * (5 + seven_days)) (Some sample_secret)
        sample_store (Some ''Bearer hdr.alice.sig'')
     = Respond (Json 401 False ''Invalid token'')
   \<and> jwt_verify sample_codec 5000 (Some ''hdr.alice.forged'') sample_secret
     = Inl (Thrown JsonWebTokenError ''JsonWebTokenError'' ''invalid signature'')
   \<and> authenticateToken sample_codec no_faults 5000 (Some sample_secret)
        sample_store (Some ''Bearer hdr.alice.forged'')
     = Respond (Json 401 False ''Invalid token'')
   \<and> jwt_verify sample_codec 5000 (Some ''garbage'') sample_secret
     = Inl (Thrown JsonWebTokenError ''JsonWebTokenError'' ''jwt malformed'')
   \<and> authenticateToken sample_codec no_faults 5000 (Some sample_secret)
        sample_store (Some ''Bearer garbage'')
     = Respond (Json 401 False ''Invalid token'')"
  by (simp add: authenticateToken_def header_token_def falsy_def index_def jwt_verify_def
        signature_verifies_def auth_catch_def instanceof_def seven_days_def Let_def sample_defs)

text \<open>
  The standalone server's middleware looks the subject up again: a token that verifies
  for a user the store does not hold is answered 401 "User not found", and no identity is
  attached.
\<close>

lemma authenticateToken_unknown_subject:
  assumes "header_token h = Some t" and "t \<noteq> []" and "\<not> falsy env"
    and "jwt_verify cd now (Some t) (the env) = Inr d"
    and "is_object_id (jwt_userId d)"
    and "drv (UserFindById (jwt_userId d)) = None"
    and "toLowerCase (jwt_userId d) \<notin> u_id ` set (users s)"
  shows "authenticateToken cd drv now env s h = Respond (Json 401 False ''User not found'')"
proof -
  from assms(7) have "find (\<lambda>u. u_id u = toLowerCase (jwt_userId d)) (users s) = None"
    by (simp add: find_user_None)
  with assms(1-6) show ?thesis
    by (simp add: authenticateToken_def User_findById_def falsy_def well_formed_casts
          well_formed_object_id)
qed

text \<open>
  Claim C4, at the input where the code departs from it. The claim: a request whose
  token verifies but whose subject is no user of the store is refused with 401 and gets
  no identity attached. The standalone server's middleware does so (the lemma above, and
  the last equation below). \<^verbatim>\<open>authenticateRequest\<close> of the serverless functions never
  consults the store: for a valid token of a user who is not in the store it returns
  true with that user's identity attached.
\<close>

theorem authenticateRequest_unknown_subject:
  "u_id alice \<notin> u_id ` set (users (sample_store\<lparr>users := [bob]\<rparr>))
   \<and> authenticateRequest sample_codec 5000 (Some sample_secret) (Some ''Bearer hdr.alice.sig'')
     = Some \<lparr>au_id = u_id alice, au_email = u_email alice, au_username = None\<rparr>
   \<and> authenticateToken sample_codec no_faults 5000 (Some sample_secret)
        (sample_store\<lparr>users := [bob]\<rparr>) (Some ''Bearer hdr.alice.sig'')
     = Respond (Json 401 False ''User not found'')"
  by (simp add: authenticateRequest_def verifyToken_def startsWith_def api_secret_def
        decoded_user_def authenticateToken_def header_token_def falsy_def index_def jwt_verify_def
        signature_verifies_def User_findById_def object_id_defs lower_defs
        seven_days_def Let_def sample_defs)

subsection \<open>Login\<close>

text \<open>
  Claim C5. A login attempt for an email no user has, and a login attempt for an
  existing email with a password that does not match the stored hash, get the same
  response: 401 with the message "Invalid email or password". This holds across any two
  requests, stores and configurations.
\<close>

theorem login_failure_uniform:
  assumes "lr_errors ra = []" and "lr_errors rb = []"
    and "drva (UserFindOne (toLowerCase (lr_email ra))) = None"
    and "toLowerCase (lr_email ra) \<notin> u_email ` set (users sa)"
    and "User_findOne drvb sb (toLowerCase (lr_email rb)) = Inr (Some u)"
    and "\<not> comparePassword cmpb u (lr_password rb)"
  shows "login_handler cda drva cmpa nowa enva sa ra = Json 401 False ''Invalid email or password''
       \<and> login_handler cdb drvb cmpb nowb envb sb rb
           = login_handler cda drva cmpa nowa enva sa ra"
proof -
  from assms(4) have "find (\<lambda>u. u_email u = toLowerCase (lr_email ra)) (users sa) = None"
    by (simp add: find_email_None)
  with assms(1,3)
  have a: "login_handler cda drva cmpa nowa enva sa ra
      = Json 401 False ''Invalid email or password''"
    by (simp add: login_handler_def User_findOne_def)
  from assms(2,5,6)
  have b: "login_handler cdb drvb cmpb nowb envb sb rb
      = Json 401 False ''Invalid email or password''"
    by (simp add: login_handler_def)
  from a b show ?thesis by simp
qed

theorem login_failure_uniform_witness:
  "login_handler sample_codec no_faults same_string 5000 (Some sample_secret) sample_store
       \<lparr>lr_errors = [], lr_email = ''Carol@Example.com'', lr_password = ''secret1''\<rparr>
     = Json 401 False ''Invalid email or password''
   \<and> login_handler sample_codec no_faults same_string 5000 (Some sample_secret) sample_store
       \<lparr>lr_errors = [], lr_email = ''Alice@Example.com'', lr_password = ''secret2''\<rparr>
     = login_handler sample_codec no_faults same_string 5000 (Some sample_secret) sample_store
       \<lparr>lr_errors = [], lr_email = ''Carol@Example.com'', lr_password = ''secret1''\<rparr>
   \<and> login_handler sample_codec no_faults same_string 5000 (Some sample_secret) sample_store
       \<lparr>lr_errors = [], lr_email = ''Alice@Example.com'', lr_password = ''secret1''\<rparr>
     = JsonAuth 200 True ''Login successful'' (u_id alice) ''Alice'' ''alice@example.com''
         ''hdr.alice.sig''"
proof -
  let ?r1 = "\<lparr>lr_errors = [], lr_email = ''Carol@Example.com'', lr_password = ''secret1''\<rparr>"
  let ?r2 = "\<lparr>lr_errors = [], lr_email = ''Alice@Example.com'', lr_password = ''secret2''\<rparr>"
  have lc: "toLowerCase ''Carol@Example.com'' = ''carol@example.com''"
    and la: "toLowerCase ''Alice@Example.com'' = ''alice@example.com''"
    by (simp_all add: toLowerCase_def toLowerChar_def upper_letters_def lower_letters_def)
  have h1: "lr_errors ?r1 = []" and h2: "lr_errors ?r2 = []" by simp_all
  have h3: "no_faults (UserFindOne (toLowerCase (lr_email ?r1))) = None"
    by (simp add: no_faults_def)
  have h4: "toLowerCase (lr_email ?r1) \<notin> u_email ` set (users sample_store)"
    by (simp add: lc sample_store_def alice_def bob_def)
  have h5: "User_findOne no_faults sample_store (toLowerCase (lr_email ?r2)) = Inr (Some alice)"
    by (simp add: la User_findOne_def no_faults_def sample_store_def alice_def bob_def)
  have h6: "\<not> comparePassword same_string alice (lr_password ?r2)"
    by (simp add: comparePassword_def same_string_def alice_def)
  have ok: "login_handler sample_codec no_faults same_string 5000 (Some sample_secret) sample_store
       \<lparr>lr_errors = [], lr_email = ''Alice@Example.com'', lr_password = ''secret1''\<rparr>
     = JsonAuth 200 True ''Login successful'' (u_id alice) ''Alice'' ''alice@example.com''
         ''hdr.alice.sig''"
    by (simp add: login_handler_def la User_findOne_def comparePassword_def same_string_def
          generateToken_def falsy_def jwt_sign_def signed_token_def Let_def sample_defs)
  from login_failure_uniform [where ra = ?r1 and rb = ?r2 and drva = no_faults
      and drvb = no_faults and sa = sample_store and sb = sample_store and u = alice
      and cmpa = same_string and cmpb = same_string and cda = sample_codec and cdb = sample_codec
      and nowa = 5000 and nowb = 5000 and enva = "Some sample_secret"
      and envb = "Some sample_secret"]
    h1 h2 h3 h4 h5 h6 ok
  show ?thesis by simp
qed

subsection \<open>Creating a post\<close>

text \<open>
  Claim C10. Whatever a post-creation request carries, the handler either leaves the
  collection as it was or appends one post, of the requested type; when the type is NEED
  that post has no image reference, even if a file came with the request; it has an
  image reference exactly when the type is HAVE and a file was uploaded.
\<close>

theorem create_image_only_for_have:
  "posts (snd (create_handler isLength drv now new_id s uid body)) = posts s
   \<or> (\<exists>p. posts (snd (create_handler isLength drv now new_id s uid body)) = posts s @ [p]
          \<and> p_id p = new_id \<and> Some (p_type p) = cb_type body
          \<and> (cb_type body = Some ''NEED'' \<longrightarrow> p_imageUrl p = None)
          \<and> (p_imageUrl p \<noteq> None \<longleftrightarrow> cb_type body = Some ''HAVE'' \<and> cb_file body \<noteq> None))"
  by (auto simp: create_handler_def Post_save_def validatePostData_def Let_def
        split: sum.splits option.splits if_splits prod.splits)

theorem create_image_only_for_have_witness:
  "\<exists>p. posts (snd (create_handler code_units no_faults 9000 new_post_id sample_store (u_id alice)
                      need_with_file))
          = posts sample_store @ [p]
        \<and> p_type p = ''NEED'' \<and> p_imageUrl p = None"
proof -
  have changed:
    "posts (snd (create_handler code_units no_faults 9000 new_post_id sample_store (u_id alice)
                   need_with_file))
      \<noteq> posts sample_store"
    by (simp add: create_handler_def validatePostData_def code_units_def need_with_file_def
          User_findById_def Post_save_def trim_def ws_defs ascii_def new_post_id_def
          object_id_defs lower_defs Let_def sample_defs)
  have ty: "cb_type need_with_file = Some ''NEED''"
    by (simp add: need_with_file_def)
  from create_image_only_for_have [of code_units no_faults 9000 new_post_id sample_store
      "u_id alice" need_with_file]
    changed ty
  show ?thesis by auto
qed

end
